theory Spec2Isabelle
  imports Complex_Main "HOL-Library.Word"
begin

section \<open>Conventions of the embedding\<close>

text \<open>
  The pipeline of \<^verbatim>\<open>src/utils/math.ts\<close>, the peak tracking of the \<^verbatim>\<open>useBluetooth\<close>
  hook, the drop computation of \<^verbatim>\<open>App\<close> and the workout store, as HOL functions.

  A JavaScript \<^verbatim>\<open>number\<close> is modelled as a \<^typ>\<open>real\<close>: every arithmetic operation is
  the exact one, so the model covers finite values and leaves rounding, NaN and the
  infinities out. Counters that only count up from zero are \<^typ>\<open>nat\<close>. A \<^verbatim>\<open>Uint8Array\<close>
  is a list of bytes. A value that may be \<^verbatim>\<open>null\<close> is an \<^typ>\<open>'a option\<close>. A method that
  mutates its object takes the object's state and returns the new one beside its result.
\<close>

type_synonym byte = "8 word"

section \<open>Frame decoding\<close>

record Acceleration =
  x :: real
  y :: real
  z :: real

record Quaternion =
  q0 :: real
  q1 :: real
  q2 :: real
  q3 :: real

text \<open>
  \<^verbatim>\<open>DataView.getInt16(off, true)\<close>: the two bytes at \<open>off\<close> and \<open>off + 1\<close>, low byte
  first, read as a two's complement number. Both decoders call it behind the guard
  \<^verbatim>\<open>buffer.length < 11\<close> with \<open>off \<le> 8\<close>, so the read is always inside the buffer (where
  the \<^verbatim>\<open>DataView\<close> would otherwise throw).
\<close>

definition getInt16 :: "byte list \<Rightarrow> nat \<Rightarrow> int" where
  "getInt16 buffer off =
     (let u = int (unat (buffer ! off)) + 256 * int (unat (buffer ! (off + 1)))
      in if u < 32768 then u else u - 65536)"

definition parseAcceleration :: "byte list \<Rightarrow> Acceleration option" where
  "parseAcceleration buffer =
     (if length buffer < 11 \<or> buffer ! 0 \<noteq> 0x55 \<or> buffer ! 1 \<noteq> 0x51 then None
      else Some \<lparr> x = (real_of_int (getInt16 buffer 2) / 32768) * 16 * 9.81,
                  y = (real_of_int (getInt16 buffer 4) / 32768) * 16 * 9.81,
                  z = (real_of_int (getInt16 buffer 6) / 32768) * 16 * 9.81 \<rparr>)"

definition parseQuaternion :: "byte list \<Rightarrow> Quaternion option" where
  "parseQuaternion buffer =
     (if length buffer < 11 \<or> buffer ! 0 \<noteq> 0x55 \<or> buffer ! 1 \<noteq> 0x59 then None
      else Some \<lparr> q0 = real_of_int (getInt16 buffer 2) / 32768,
                  q1 = real_of_int (getInt16 buffer 4) / 32768,
                  q2 = real_of_int (getInt16 buffer 6) / 32768,
                  q3 = real_of_int (getInt16 buffer 8) / 32768 \<rparr>)"

section \<open>Gravity compensation\<close>

definition getLinearAccelerationBaseZ :: "Acceleration \<Rightarrow> Quaternion \<Rightarrow> real" where
  "getLinearAccelerationBaseZ rawAccel q =
     (let g_z = q0 q * q0 q - q1 q * q1 q - q2 q * q2 q + q3 q * q3 q
      in z rawAccel - (g_z * 9.81))"

section \<open>Noise filter\<close>

text \<open>
  The repository holds two copies of \<^verbatim>\<open>math.ts\<close> that differ only in constants: the filter's
  gain and feedback coefficients, the integrator's time step and its ZUPT frame count.
  The record \<open>variant\<close> carries exactly those constants; \<open>hz20\<close> is the copy under
  \<^verbatim>\<open>src/utils/math.ts\<close> and \<open>hz200\<close> the other one.
\<close>

record variant =
  GAIN :: real
  fb0 :: real
  fb1 :: real
  fb2 :: real
  fb3 :: real
  dt :: real
  zuptMaxFrames :: nat

definition hz20 :: variant where
  "hz20 = \<lparr> GAIN = 3.4142,
            fb0 = - 0.0000000000, fb1 = 0.0000000000, fb2 = - 0.1715728753, fb3 = 0.0000000000,
            dt = 0.050, zuptMaxFrames = 4 \<rparr>"

definition hz200 :: variant where
  "hz200 = \<lparr> GAIN = 1445.41,
             fb0 = - 0.4078516104, fb1 = 1.9839443216, fb2 = - 3.6705606670, fb3 = 3.0858167732,
             dt = 0.005, zuptMaxFrames = 40 \<rparr>"

text \<open>
  The two history arrays have five slots from construction on and are only written at the
  constant indices 0 to 4, so no access is out of range.
\<close>

record ButterworthLowPass =
  xv :: "real list"
  yv :: "real list"

definition newButterworthLowPass :: ButterworthLowPass where
  "newButterworthLowPass = \<lparr> xv = [0, 0, 0, 0, 0], yv = [0, 0, 0, 0, 0] \<rparr>"

definition filter_step :: "variant \<Rightarrow> ButterworthLowPass \<Rightarrow> real \<Rightarrow> real \<times> ButterworthLowPass" where
  "filter_step cfg f val =
     (let xa = xv f;
          xa = xa[0 := xa ! 1]; xa = xa[1 := xa ! 2]; xa = xa[2 := xa ! 3]; xa = xa[3 := xa ! 4];
          xa = xa[4 := val / GAIN cfg];
          ya = yv f;
          ya = ya[0 := ya ! 1]; ya = ya[1 := ya ! 2]; ya = ya[2 := ya ! 3]; ya = ya[3 := ya ! 4];
          ya = ya[4 := (xa ! 0 + xa ! 4) + 4 * (xa ! 1 + xa ! 3) + 6 * xa ! 2
                        + (fb0 cfg * ya ! 0) + (fb1 cfg * ya ! 1)
                        + (fb2 cfg * ya ! 2) + (fb3 cfg * ya ! 3)]
      in (ya ! 4, \<lparr> xv = xa, yv = ya \<rparr>))"

section \<open>Velocity integration with zero-velocity update\<close>

definition zuptThreshold :: real where
  "zuptThreshold = 0.15"

record VelocityIntegrator =
  currentVelocity :: real
  prevAccel :: real
  filt :: ButterworthLowPass
  zuptCounter :: nat

definition newVelocityIntegrator :: VelocityIntegrator where
  "newVelocityIntegrator =
     \<lparr> currentVelocity = 0, prevAccel = 0, filt = newButterworthLowPass, zuptCounter = 0 \<rparr>"

text \<open>Steps 3 and 4 of \<^verbatim>\<open>update\<close> and its last two lines, on the filtered value.\<close>

definition zuptIntegrate :: "variant \<Rightarrow> VelocityIntegrator \<Rightarrow> real \<Rightarrow> real \<times> VelocityIntegrator" where
  "zuptIntegrate cfg s filteredA =
     (let s = (if \<bar>filteredA\<bar> < zuptThreshold
               then (let s = s\<lparr> zuptCounter := zuptCounter s + 1 \<rparr>
                     in if zuptCounter s \<ge> zuptMaxFrames cfg then s\<lparr> currentVelocity := 0 \<rparr> else s)
               else s\<lparr> zuptCounter := 0 \<rparr>);
          s = (if zuptCounter s < zuptMaxFrames cfg
               then s\<lparr> currentVelocity :=
                        currentVelocity s + ((filteredA + prevAccel s) / 2) * dt cfg \<rparr>
               else s);
          s = s\<lparr> prevAccel := filteredA \<rparr>
      in (currentVelocity s, s))"

definition update :: "variant \<Rightarrow> VelocityIntegrator \<Rightarrow> real \<Rightarrow> Quaternion \<Rightarrow> real \<times> VelocityIntegrator" where
  "update cfg s rawZ q =
     (let linearA = getLinearAccelerationBaseZ \<lparr> x = 0, y = 0, z = rawZ \<rparr> q;
          (filteredA, f) = filter_step cfg (filt s) linearA
      in zuptIntegrate cfg (s\<lparr> filt := f \<rparr>) filteredA)"

definition reset :: "VelocityIntegrator \<Rightarrow> VelocityIntegrator" where
  "reset s = s\<lparr> currentVelocity := 0, prevAccel := 0, zuptCounter := 0 \<rparr>"

text \<open>A sequence of \<^verbatim>\<open>update\<close> calls on one integrator: the velocities returned, in order,
  and the integrator afterwards.\<close>

fun updates :: "variant \<Rightarrow> VelocityIntegrator \<Rightarrow> (real \<times> Quaternion) list
                \<Rightarrow> real list \<times> VelocityIntegrator" where
  "updates cfg s [] = ([], s)"
| "updates cfg s ((rawZ, q) # ins) =
     (let (v, s1) = update cfg s rawZ q;
          (vs, s2) = updates cfg s1 ins
      in (v # vs, s2))"

text \<open>The filtered accelerations that these calls compute, which depend on the filter alone.\<close>

fun filteredAs :: "variant \<Rightarrow> ButterworthLowPass \<Rightarrow> (real \<times> Quaternion) list \<Rightarrow> real list" where
  "filteredAs cfg f [] = []"
| "filteredAs cfg f ((rawZ, q) # ins) =
     (let (filteredA, f1) =
            filter_step cfg f (getLinearAccelerationBaseZ \<lparr> x = 0, y = 0, z = rawZ \<rparr> q)
      in filteredA # filteredAs cfg f1 ins)"

definition identityQuat :: Quaternion where
  "identityQuat = \<lparr> q0 = 1, q1 = 0, q2 = 0, q3 = 0 \<rparr>"

definition filteredA :: "variant \<Rightarrow> ButterworthLowPass \<Rightarrow> real \<Rightarrow> Quaternion \<Rightarrow> real" where
  "filteredA cfg f rawZ q =
     fst (filter_step cfg f (getLinearAccelerationBaseZ \<lparr> x = 0, y = 0, z = rawZ \<rparr> q))"

text \<open>The filter in which every input slot holds \<open>c / GAIN\<close> and every output slot holds \<open>out\<close>.\<close>

definition steady :: "variant \<Rightarrow> real \<Rightarrow> real \<Rightarrow> ButterworthLowPass" where
  "steady cfg c out = \<lparr> xv = replicate 5 (c / GAIN cfg), yv = replicate 5 out \<rparr>"

section \<open>The Bluetooth hook: decoding events, peak velocity\<close>

text \<open>
  The state of \<^verbatim>\<open>useBluetooth\<close> that the notification handler reads and writes. The
  handler calls \<^verbatim>\<open>parseAcceleration(buffer, 2)\<close>; \<^verbatim>\<open>parseAcceleration\<close> declares one
  parameter in both copies of \<^verbatim>\<open>math.ts\<close>, so the second argument never reaches it. On
  an empty buffer \<^verbatim>\<open>buffer[0]\<close> is \<^verbatim>\<open>undefined\<close> and the comparison with \<^verbatim>\<open>0x55\<close> fails.
  The updater passed to \<^verbatim>\<open>setPeakVelocity\<close> is the function of that name here.
\<close>

record Hook =
  velocity :: real
  peakVelocity :: real
  accelerationZ :: real
  integratorRef :: VelocityIntegrator
  latestQuatRef :: Quaternion

definition newHook :: Hook where
  "newHook = \<lparr> velocity = 0, peakVelocity = 0, accelerationZ = 0,
               integratorRef = newVelocityIntegrator, latestQuatRef = identityQuat \<rparr>"

definition setPeakVelocity :: "real \<Rightarrow> real \<Rightarrow> real" where
  "setPeakVelocity currentVel prev = (if currentVel > prev then currentVel else prev)"

definition handleCharacteristicValueChanged :: "variant \<Rightarrow> Hook \<Rightarrow> byte list option \<Rightarrow> Hook" where
  "handleCharacteristicValueChanged cfg h val =
     (case val of
        None \<Rightarrow> h
      | Some buffer \<Rightarrow>
          if 0 < length buffer \<and> buffer ! 0 = 0x55 then
            if 1 < length buffer \<and> buffer ! 1 = 0x59 then
              (case parseQuaternion buffer of
                 Some q \<Rightarrow> h\<lparr> latestQuatRef := q \<rparr>
               | None \<Rightarrow> h)
            else if 1 < length buffer \<and> buffer ! 1 = 0x51 then
              (case parseAcceleration buffer of
                 Some a \<Rightarrow>
                   (let (currentVel, i) = update cfg (integratorRef h) (z a) (latestQuatRef h)
                    in h\<lparr> accelerationZ := z a, integratorRef := i, velocity := currentVel,
                          peakVelocity := setPeakVelocity currentVel (peakVelocity h) \<rparr>)
               | None \<Rightarrow> h)
            else h
          else h)"

definition resetPeak :: "Hook \<Rightarrow> Hook" where
  "resetPeak h = h\<lparr> peakVelocity := 0 \<rparr>"

text \<open>A sequence of notifications, and the values of \<^verbatim>\<open>currentVel\<close> the handler computes
  on the way: one for each event that decodes as an acceleration frame.\<close>

fun handleEvents :: "variant \<Rightarrow> Hook \<Rightarrow> byte list option list \<Rightarrow> Hook" where
  "handleEvents cfg h [] = h"
| "handleEvents cfg h (e # es) = handleEvents cfg (handleCharacteristicValueChanged cfg h e) es"

definition producesVelocity :: "byte list option \<Rightarrow> bool" where
  "producesVelocity e = (case e of None \<Rightarrow> False | Some buffer \<Rightarrow> parseAcceleration buffer \<noteq> None)"

fun velocitySamples :: "variant \<Rightarrow> Hook \<Rightarrow> byte list option list \<Rightarrow> real list" where
  "velocitySamples cfg h [] = []"
| "velocitySamples cfg h (e # es) =
     (let h1 = handleCharacteristicValueChanged cfg h e
      in (if producesVelocity e then [velocity h1] else []) @ velocitySamples cfg h1 es)"

section \<open>Velocity drop in \<^verbatim>\<open>App\<close>\<close>

text \<open>
  \<^verbatim>\<open>App\<close> computes the drop against the constant \<^verbatim>\<open>bestSetVelocity = 1.0\<close>; the reference is
  a parameter here so that the computation can be stated for every reference.
\<close>

definition bestSetVelocity :: real where
  "bestSetVelocity = 1.0"

definition velocityDropPercent :: "real \<Rightarrow> real \<Rightarrow> real" where
  "velocityDropPercent peak best =
     (if peak > 0 \<and> best > 0 then max 0 (((best - peak) / best) * 100) else 0)"

section \<open>Workout store\<close>

text \<open>
  The state of the store and its actions. \<^verbatim>\<open>crypto.randomUUID()\<close> and \<^verbatim>\<open>Date.now()\<close> are
  arguments. The fields \<^verbatim>\<open>id\<close> carry the name of their record, \<^verbatim>\<open>notes\<close> is
  \<open>session_notes\<close> and a repetition's \<^verbatim>\<open>peakVelocity\<close> is \<open>rep_peakVelocity\<close>. The test
  \<^verbatim>\<open>!state.activeSessionId\<close> holds for \<^verbatim>\<open>null\<close> and for the empty string.
\<close>

record Repetition =
  rep_id :: string
  repNumber :: nat
  rep_peakVelocity :: real
  meanVelocity :: "real option"

record ExerciseSet =
  set_id :: string
  exerciseName :: string
  weightKg :: real
  targetReps :: real
  reps :: "Repetition list"

record WorkoutSession =
  session_id :: string
  timestamp :: real
  session_notes :: string
  sets :: "ExerciseSet list"

record WorkoutStore =
  sessions :: "WorkoutSession list"
  activeSessionId :: "string option"
  activeSetId :: "string option"

definition falsy :: "string option \<Rightarrow> bool" where
  "falsy v = (v = None \<or> v = Some [])"

definition startSession :: "string \<Rightarrow> real \<Rightarrow> string \<Rightarrow> WorkoutStore \<Rightarrow> WorkoutStore" where
  "startSession uuid now notes' state =
     (let newSession = \<lparr> session_id = uuid, timestamp = now, session_notes = notes', sets = [] \<rparr>
      in state\<lparr> sessions := newSession # sessions state, activeSessionId := Some uuid \<rparr>)"

definition endSession :: "WorkoutStore \<Rightarrow> WorkoutStore" where
  "endSession state = state\<lparr> activeSessionId := None, activeSetId := None \<rparr>"

definition startSet :: "string \<Rightarrow> string \<Rightarrow> real \<Rightarrow> real \<Rightarrow> WorkoutStore \<Rightarrow> WorkoutStore" where
  "startSet uuid exerciseName' weightKg' targetReps' state =
     (if falsy (activeSessionId state) then state
      else
        (let newSet = \<lparr> set_id = uuid, exerciseName = exerciseName', weightKg = weightKg',
                         targetReps = targetReps', reps = [] \<rparr>
         in state\<lparr> sessions :=
                      map (\<lambda>s. if Some (session_id s) = activeSessionId state
                                then s\<lparr> sets := sets s @ [newSet] \<rparr>
                                else s) (sessions state),
                    activeSetId := Some uuid \<rparr>))"

definition endSet :: "WorkoutStore \<Rightarrow> WorkoutStore" where
  "endSet state = state\<lparr> activeSetId := None \<rparr>"

definition addRep :: "string \<Rightarrow> real \<Rightarrow> real option \<Rightarrow> WorkoutStore \<Rightarrow> WorkoutStore" where
  "addRep uuid peakVelocity' meanVelocity' state =
     (if falsy (activeSessionId state) \<or> falsy (activeSetId state) then state
      else
        state\<lparr> sessions :=
          map (\<lambda>s. if Some (session_id s) = activeSessionId state
                    then s\<lparr> sets :=
                           map (\<lambda>exSet. if Some (set_id exSet) = activeSetId state
                                         then (let newRep = \<lparr> rep_id = uuid,
                                                                 repNumber = length (reps exSet) + 1,
                                                                 rep_peakVelocity = peakVelocity',
                                                                 meanVelocity = meanVelocity' \<rparr>
                                               in exSet\<lparr> reps := reps exSet @ [newRep] \<rparr>)
                                         else exSet) (sets s) \<rparr>
                    else s) (sessions state) \<rparr>)"

definition emptyStore :: WorkoutStore where
  "emptyStore = \<lparr> sessions = [], activeSessionId = None, activeSetId = None \<rparr>"

section \<open>Concrete inputs\<close>

definition zeroFrame :: "byte list" where
  "zeroFrame = [0x55, 0x51, 0, 0, 0, 0, 0, 0, 0, 0, 0]"

definition halfFrame :: "byte list" where
  "halfFrame = [0x55, 0x51, 0, 0, 0, 0, 0x00, 0x40, 0, 0, 0]"

definition quatFrame :: "byte list" where
  "quatFrame = [0x55, 0x59, 0xFF, 0x7F, 0, 0, 0, 0, 0, 0, 0]"

definition movingIntegrator :: VelocityIntegrator where
  "movingIntegrator = newVelocityIntegrator \<lparr> currentVelocity := 1 \<rparr>"

text \<open>Raw vertical readings of a level sensor: at rest, and such that the 20 Hz filter,
  starting from an empty history, puts out 1 at \<open>pushZ\<close> and 1 again at \<open>pullZ\<close> after it.\<close>

definition restZ :: real where
  "restZ = 9.81"

definition pushZ :: real where
  "pushZ = 9.81 + 3.4142"

definition pullZ :: real where
  "pullZ = 9.81 - 3 * 3.4142"

definition restInputs :: "(real \<times> Quaternion) list" where
  "restInputs = [(restZ, identityQuat), (restZ, identityQuat), (restZ, identityQuat),
                 (restZ, identityQuat), (restZ, identityQuat)]"

definition pushInputs :: "(real \<times> Quaternion) list" where
  "pushInputs = [(pushZ, identityQuat), (pullZ, identityQuat)]"

definition betweenSets :: WorkoutStore where
  "betweenSets =
     endSet (startSet ''e1'' ''squat'' 100 5 (startSession ''s1'' 0 ''leg day'' emptyStore))"

section \<open>Evaluation rules\<close>

lemmas eval_defs = update_def zuptIntegrate_def filter_step_def getLinearAccelerationBaseZ_def
  identityQuat_def newVelocityIntegrator_def newButterworthLowPass_def hz20_def hz200_def
  zuptThreshold_def reset_def filteredA_def Let_def split_def

lemmas frame_defs = parseAcceleration_def parseQuaternion_def getInt16_def zeroFrame_def
  halfFrame_def quatFrame_def

section \<open>One call of \<^verbatim>\<open>update\<close>\<close>

lemma update_zuptIntegrate:
  "update cfg s rawZ q =
     zuptIntegrate cfg
       (s\<lparr> filt := snd (filter_step cfg (filt s)
                          (getLinearAccelerationBaseZ \<lparr> x = 0, y = 0, z = rawZ \<rparr> q)) \<rparr>)
       (filteredA cfg (filt s) rawZ q)"
  by (simp add: update_def filteredA_def split_def Let_def)

lemma zuptIntegrate_filt: "filt (snd (zuptIntegrate cfg s a)) = filt s"
  by (simp add: zuptIntegrate_def Let_def)

lemma zuptIntegrate_prevAccel: "prevAccel (snd (zuptIntegrate cfg s a)) = a"
  by (simp add: zuptIntegrate_def Let_def)

lemma zuptIntegrate_returns_field:
  "fst (zuptIntegrate cfg s a) = currentVelocity (snd (zuptIntegrate cfg s a))"
  by (simp add: zuptIntegrate_def Let_def)

lemma zuptIntegrate_counter:
  "zuptCounter (snd (zuptIntegrate cfg s a)) = (if \<bar>a\<bar> < zuptThreshold then zuptCounter s + 1 else 0)"
  by (simp add: zuptIntegrate_def Let_def)

lemma zuptIntegrate_locked:
  "\<bar>a\<bar> < zuptThreshold \<Longrightarrow> zuptMaxFrames cfg \<le> zuptCounter s + 1
     \<Longrightarrow> currentVelocity (snd (zuptIntegrate cfg s a)) = 0"
  by (simp add: zuptIntegrate_def Let_def)

lemma zuptIntegrate_trapezoid:
  "zuptCounter (snd (zuptIntegrate cfg s a)) < zuptMaxFrames cfg
     \<Longrightarrow> currentVelocity (snd (zuptIntegrate cfg s a))
           = currentVelocity s + (a + prevAccel s) / 2 * dt cfg"
  by (simp add: zuptIntegrate_def Let_def split: if_splits)

lemma update_filt:
  "filt (snd (update cfg s rawZ q))
     = snd (filter_step cfg (filt s) (getLinearAccelerationBaseZ \<lparr> x = 0, y = 0, z = rawZ \<rparr> q))"
  by (simp add: update_zuptIntegrate zuptIntegrate_filt)

lemma update_prevAccel: "prevAccel (snd (update cfg s rawZ q)) = filteredA cfg (filt s) rawZ q"
  by (simp add: update_zuptIntegrate zuptIntegrate_prevAccel)

lemma update_returns_field:
  "fst (update cfg s rawZ q) = currentVelocity (snd (update cfg s rawZ q))"
  by (simp add: update_zuptIntegrate zuptIntegrate_returns_field)

lemma update_counter:
  "zuptCounter (snd (update cfg s rawZ q))
     = (if \<bar>filteredA cfg (filt s) rawZ q\<bar> < zuptThreshold then zuptCounter s + 1 else 0)"
  by (simp add: update_zuptIntegrate zuptIntegrate_counter)

lemma update_locked:
  "\<bar>filteredA cfg (filt s) rawZ q\<bar> < zuptThreshold \<Longrightarrow> zuptMaxFrames cfg \<le> zuptCounter s + 1
     \<Longrightarrow> currentVelocity (snd (update cfg s rawZ q)) = 0"
  by (simp add: update_zuptIntegrate zuptIntegrate_locked)

lemma update_trapezoid:
  "zuptCounter (snd (update cfg s rawZ q)) < zuptMaxFrames cfg
     \<Longrightarrow> currentVelocity (snd (update cfg s rawZ q))
           = currentVelocity s + (filteredA cfg (filt s) rawZ q + prevAccel s) / 2 * dt cfg"
  using zuptIntegrate_trapezoid [of cfg _ "filteredA cfg (filt s) rawZ q"]
  by (simp add: update_zuptIntegrate)

lemma updates_Cons:
  "updates cfg s ((rawZ, q) # ins) =
     (fst (update cfg s rawZ q) # fst (updates cfg (snd (update cfg s rawZ q)) ins),
      snd (updates cfg (snd (update cfg s rawZ q)) ins))"
  by (simp add: split_def Let_def)

declare updates.simps(2) [simp del]

lemma filteredAs_Cons:
  "filteredAs cfg (filt s) ((rawZ, q) # ins) =
     filteredA cfg (filt s) rawZ q # filteredAs cfg (filt (snd (update cfg s rawZ q))) ins"
  by (simp add: split_def Let_def filteredA_def update_filt)

lemma length_updates: "length (fst (updates cfg s ins)) = length ins"
  by (induction ins arbitrary: s) (auto simp: updates_Cons)

lemma updates_last:
  "ins \<noteq> [] \<Longrightarrow> last (fst (updates cfg s ins)) = currentVelocity (snd (updates cfg s ins))"
proof (induction ins arbitrary: s)
  case Nil then show ?case by simp
next
  case (Cons p ins)
  obtain rawZ q where p: "p = (rawZ, q)" by (cases p)
  show ?case
  proof (cases "ins = []")
    case True
    then show ?thesis by (simp add: p updates_Cons update_returns_field)
  next
    case False
    have "fst (updates cfg (snd (update cfg s rawZ q)) ins) \<noteq> []"
      using False length_updates [of cfg "snd (update cfg s rawZ q)" ins] by auto
    then show ?thesis
      using Cons.IH [OF False, of "snd (update cfg s rawZ q)"]
      by (simp add: p updates_Cons)
  qed
qed

lemma locked_run:
  assumes "\<forall>a \<in> set (filteredAs cfg (filt s) ins). \<bar>a\<bar> < zuptThreshold"
  shows "zuptCounter (snd (updates cfg s ins)) = zuptCounter s + length ins
       \<and> (\<forall>i < length ins. zuptMaxFrames cfg \<le> zuptCounter s + Suc i
                \<longrightarrow> fst (updates cfg s ins) ! i = 0)
       \<and> (ins \<noteq> [] \<and> zuptMaxFrames cfg \<le> zuptCounter s + length ins
                \<longrightarrow> currentVelocity (snd (updates cfg s ins)) = 0)"
  using assms
proof (induction ins arbitrary: s)
  case Nil then show ?case by simp
next
  case (Cons p ins)
  obtain rawZ q where p: "p = (rawZ, q)" by (cases p)
  let ?s1 = "snd (update cfg s rawZ q)"
  have a: "\<bar>filteredA cfg (filt s) rawZ q\<bar> < zuptThreshold"
    and rest: "\<forall>a \<in> set (filteredAs cfg (filt ?s1) ins). \<bar>a\<bar> < zuptThreshold"
    using Cons.prems unfolding p filteredAs_Cons by simp_all
  have c1: "zuptCounter ?s1 = zuptCounter s + 1"
    using a by (simp add: update_counter)
  note IH = Cons.IH [OF rest]
  have cnt: "zuptCounter (snd (updates cfg s (p # ins))) = zuptCounter s + length (p # ins)"
    using IH c1 by (simp add: p updates_Cons)
  have idx: "fst (updates cfg s (p # ins)) ! i = 0"
    if "i < length (p # ins)" "zuptMaxFrames cfg \<le> zuptCounter s + Suc i" for i
  proof (cases i)
    case 0
    then show ?thesis
      using that a update_locked [of cfg s rawZ q]
      by (simp add: p updates_Cons update_returns_field)
  next
    case (Suc j)
    then show ?thesis
      using that IH c1 by (simp add: p updates_Cons)
  qed
  have fin: "currentVelocity (snd (updates cfg s (p # ins))) = 0"
    if "zuptMaxFrames cfg \<le> zuptCounter s + length (p # ins)"
  proof (cases "ins = []")
    case True
    then show ?thesis
      using that a update_locked [of cfg s rawZ q] by (simp add: p updates_Cons)
  next
    case False
    then show ?thesis
      using that IH c1 by (simp add: p updates_Cons)
  qed
  show ?case using cnt idx fin by blast
qed

lemma update_resumes:
  "0 < zuptMaxFrames cfg \<Longrightarrow> zuptThreshold \<le> \<bar>filteredA cfg (filt s) rawZ q\<bar> \<Longrightarrow>
     zuptCounter (snd (update cfg s rawZ q)) = 0
     \<and> fst (update cfg s rawZ q)
         = currentVelocity s + (filteredA cfg (filt s) rawZ q + prevAccel s) / 2 * dt cfg"
  using update_trapezoid [of cfg s rawZ q]
  by (simp add: update_counter update_returns_field)

lemma constant_run:
  assumes "\<forall>b \<in> set (filteredAs cfg (filt s) ins). b = a"
    and "(if \<bar>a\<bar> < zuptThreshold then zuptCounter s + length ins else 0) < zuptMaxFrames cfg"
    and "ins \<noteq> []"
  shows "currentVelocity (snd (updates cfg s ins))
           = currentVelocity s + (a + prevAccel s) / 2 * dt cfg
             + real (length ins - 1) * a * dt cfg
         \<and> prevAccel (snd (updates cfg s ins)) = a"
  using assms
proof (induction ins arbitrary: s)
  case Nil then show ?case by simp
next
  case (Cons p ins)
  obtain rawZ q where p: "p = (rawZ, q)" by (cases p)
  let ?s1 = "snd (update cfg s rawZ q)"
  have a: "filteredA cfg (filt s) rawZ q = a"
    and rest: "\<forall>b \<in> set (filteredAs cfg (filt ?s1) ins). b = a"
    using Cons.prems(1) unfolding p filteredAs_Cons by simp_all
  have c1: "zuptCounter ?s1 = (if \<bar>a\<bar> < zuptThreshold then zuptCounter s + 1 else 0)"
    using a by (simp add: update_counter)
  have below: "zuptCounter ?s1 < zuptMaxFrames cfg"
    using Cons.prems(2) c1 by (simp split: if_splits)
  have v1: "currentVelocity ?s1 = currentVelocity s + (a + prevAccel s) / 2 * dt cfg"
    using update_trapezoid [OF below] a by simp
  have p1: "prevAccel ?s1 = a"
    using a by (simp add: update_prevAccel)
  show ?case
  proof (cases "ins = []")
    case True
    then show ?thesis using v1 p1 by (simp add: p updates_Cons)
  next
    case False
    have gate: "(if \<bar>a\<bar> < zuptThreshold then zuptCounter ?s1 + length ins else 0) < zuptMaxFrames cfg"
      using Cons.prems(2) c1 by (simp split: if_splits)
    have n: "real (length (p # ins) - 1) = 1 + real (length ins - 1)"
      using False by (cases ins) simp_all
    show ?thesis
      using Cons.IH [OF rest gate False] v1 p1 unfolding n
      by (simp add: p updates_Cons algebra_simps)
  qed
qed

section \<open>Fixed points of the filter\<close>

lemma fixed_point_unique:
  assumes "length (xv f) = 5" "length (yv f) = 5" "filter_step cfg f c = (out, f)"
  shows "out * (1 - (fb0 cfg + fb1 cfg + fb2 cfg + fb3 cfg)) = 16 * (c / GAIN cfg)"
proof -
  obtain x0 x1 x2 x3 x4 where X: "xv f = [x0, x1, x2, x3, x4]"
    using assms(1) by (auto simp: length_Suc_conv eval_nat_numeral)
  obtain y0 y1 y2 y3 y4 where Y: "yv f = [y0, y1, y2, y3, y4]"
    using assms(2) by (auto simp: length_Suc_conv eval_nat_numeral)
  have S: "xv (snd (filter_step cfg f c)) = xv f" "yv (snd (filter_step cfg f c)) = yv f"
    and O: "fst (filter_step cfg f c) = out"
    using assms(3) by simp_all
  have last_slot: "fst (filter_step cfg f c) = yv (snd (filter_step cfg f c)) ! 4"
    by (simp add: filter_step_def Let_def Y)
  have y4: "y4 = out"
    using last_slot O S(2) by (simp add: Y)
  have xs: "x0 = c / GAIN cfg" "x1 = c / GAIN cfg" "x2 = c / GAIN cfg" "x3 = c / GAIN cfg"
    "x4 = c / GAIN cfg"
    using S(1) by (simp_all add: filter_step_def Let_def X)
  have ys: "y0 = out" "y1 = out" "y2 = out" "y3 = out"
    using S(2) y4 by (simp_all add: filter_step_def Let_def Y)
  have "out = (x1 + c / GAIN cfg) + 4 * (x2 + x4) + 6 * x3
                + fb0 cfg * y1 + fb1 cfg * y2 + fb2 cfg * y3 + fb3 cfg * y4"
    using O by (simp add: filter_step_def Let_def X Y)
  then have "out = 16 * (c / GAIN cfg) + (fb0 cfg + fb1 cfg + fb2 cfg + fb3 cfg) * out"
    unfolding xs ys y4 by (simp add: algebra_simps)
  then show ?thesis by (simp add: algebra_simps)
qed

section \<open>Peak tracking\<close>

lemma handler_peak:
  "peakVelocity (handleCharacteristicValueChanged cfg h e) =
     (if producesVelocity e
      then setPeakVelocity (velocity (handleCharacteristicValueChanged cfg h e)) (peakVelocity h)
      else peakVelocity h)"
  by (auto simp: handleCharacteristicValueChanged_def producesVelocity_def parseAcceleration_def
      split_def Let_def split: option.splits)

lemma peak_fold:
  "peakVelocity (handleEvents cfg h es) = foldl (\<lambda>p v. setPeakVelocity v p) (peakVelocity h) (velocitySamples cfg h es)"
  by (induction es arbitrary: h) (simp_all add: handler_peak Let_def)

lemma foldl_setPeak: "foldl (\<lambda>p v. setPeakVelocity v p) p vs = Max (insert p (set vs))"
proof (induction vs arbitrary: p)
  case Nil show ?case by simp
next
  case (Cons v vs)
  have "Max (insert (setPeakVelocity v p) (set vs)) = Max (insert p (insert v (set vs)))"
    by (cases "set vs = {}") (auto simp: setPeakVelocity_def max_def Max_insert)
  then show ?case using Cons by simp
qed

section \<open>Single steps on concrete states\<close>

lemma rest_filter: "filter_step hz20 newButterworthLowPass 0 = (0, newButterworthLowPass)"
  by (simp add: filter_step_def newButterworthLowPass_def hz20_def Let_def)

lemma hz20_fields: "zuptMaxFrames hz20 = 4" "dt hz20 = 0.05" "GAIN hz20 = 3.4142"
  by (simp_all add: hz20_def)

lemma rest_update:
  "update hz20 \<lparr> currentVelocity = v, prevAccel = 0, filt = newButterworthLowPass,
                  zuptCounter = c \<rparr> restZ identityQuat
     = (if 4 \<le> c + 1 then 0 else v,
        \<lparr> currentVelocity = (if 4 \<le> c + 1 then 0 else v), prevAccel = 0,
          filt = newButterworthLowPass, zuptCounter = c + 1 \<rparr>)"
  by (simp add: update_def getLinearAccelerationBaseZ_def identityQuat_def restZ_def rest_filter
      zuptIntegrate_def zuptThreshold_def hz20_fields Let_def)

lemma filteredAs_step:
  "filteredAs cfg f ((rawZ, q) # ins) =
     filteredA cfg f rawZ q
       # filteredAs cfg (snd (filter_step cfg f
                                (getLinearAccelerationBaseZ \<lparr> x = 0, y = 0, z = rawZ \<rparr> q))) ins"
  by (simp add: split_def filteredA_def Let_def)

lemma push_first:
  "update hz20 \<lparr> currentVelocity = 0, prevAccel = 0, filt = newButterworthLowPass,
                  zuptCounter = c \<rparr> pushZ identityQuat
     = (1 / 40, \<lparr> currentVelocity = 1 / 40, prevAccel = 1,
                 filt = \<lparr> xv = [0, 0, 0, 0, 1], yv = [0, 0, 0, 0, 1] \<rparr>, zuptCounter = 0 \<rparr>)"
  by (simp add: eval_defs pushZ_def pullZ_def)

lemma push_second:
  "update hz20 \<lparr> currentVelocity = 1 / 40, prevAccel = 1,
                 filt = \<lparr> xv = [0, 0, 0, 0, 1], yv = [0, 0, 0, 0, 1] \<rparr>, zuptCounter = 0 \<rparr>
           pullZ identityQuat
     = (3 / 40, \<lparr> currentVelocity = 3 / 40, prevAccel = 1,
                 filt = \<lparr> xv = [0, 0, 0, 1, - 3], yv = [0, 0, 0, 1, 1] \<rparr>, zuptCounter = 0 \<rparr>)"
  by (simp add: eval_defs pushZ_def pullZ_def)

lemma push_again:
  "update hz20 \<lparr> currentVelocity = 0, prevAccel = 0,
                 filt = \<lparr> xv = [0, 0, 0, 0, 1], yv = [0, 0, 0, 0, 1] \<rparr>, zuptCounter = 0 \<rparr>
           pushZ identityQuat
     = (1 / 8, \<lparr> currentVelocity = 1 / 8, prevAccel = 5,
                 filt = \<lparr> xv = [0, 0, 0, 1, 1], yv = [0, 0, 0, 1, 5] \<rparr>, zuptCounter = 0 \<rparr>)"
  by (simp add: eval_defs pushZ_def pullZ_def)

section \<open>Gravity compensation: results\<close>

text \<open>
  C8. For every raw acceleration and every quaternion the compensator returns
  \<open>z - (q0\<^sup>2 - q1\<^sup>2 - q2\<^sup>2 + q3\<^sup>2) * 9.81\<close>; it is a function of its arguments only. With the
  identity quaternion and \<open>z = 9.81\<close> the result is 0.
\<close>

theorem gravity_compensation:
  "getLinearAccelerationBaseZ rawAccel q
     = z rawAccel - ((q0 q)\<^sup>2 - (q1 q)\<^sup>2 - (q2 q)\<^sup>2 + (q3 q)\<^sup>2) * 9.81
   \<and> getLinearAccelerationBaseZ \<lparr> x = ax, y = ay, z = 9.81 \<rparr> identityQuat = 0"
  by (simp add: getLinearAccelerationBaseZ_def identityQuat_def power2_eq_square)

section \<open>Zero-velocity update\<close>

text \<open>
  C1. Take any integrator and feed it samples whose filtered acceleration stays below
  \<open>zuptThreshold\<close> (0.15) in absolute value. The zero-run counter grows by one per sample;
  from the sample at which it reaches \<open>zuptMaxFrames\<close> on, every call of \<open>update\<close> returns
  exactly 0 and leaves the velocity at 0. When a sample with \<open>\<bar>a\<bar> \<ge> zuptThreshold\<close> then
  arrives, the counter is reset to 0 and the call integrates again: it returns the velocity
  before the call plus the trapezoid \<open>(a + prevAccel) / 2 * dt\<close>.
\<close>

theorem zupt_zero_lock:
  assumes "\<forall>a \<in> set (filteredAs cfg (filt s) ins). \<bar>a\<bar> < zuptThreshold"
  shows "zuptThreshold = 0.15
       \<and> zuptCounter (snd (updates cfg s ins)) = zuptCounter s + length ins
       \<and> (\<forall>i < length ins. zuptMaxFrames cfg \<le> zuptCounter s + Suc i
                \<longrightarrow> fst (updates cfg s ins) ! i = 0)
       \<and> (ins \<noteq> [] \<and> zuptMaxFrames cfg \<le> zuptCounter s + length ins
                \<longrightarrow> currentVelocity (snd (updates cfg s ins)) = 0)
       \<and> (0 < zuptMaxFrames cfg
            \<and> zuptThreshold \<le> \<bar>filteredA cfg (filt (snd (updates cfg s ins))) rawZ q\<bar>
                \<longrightarrow> zuptCounter (snd (update cfg (snd (updates cfg s ins)) rawZ q)) = 0
                  \<and> fst (update cfg (snd (updates cfg s ins)) rawZ q)
                      = currentVelocity (snd (updates cfg s ins))
                        + (filteredA cfg (filt (snd (updates cfg s ins))) rawZ q
                           + prevAccel (snd (updates cfg s ins))) / 2 * dt cfg)"
proof -
  note run = locked_run [OF assms]
  have resume: "zuptCounter (snd (update cfg (snd (updates cfg s ins)) rawZ q)) = 0
      \<and> fst (update cfg (snd (updates cfg s ins)) rawZ q)
          = currentVelocity (snd (updates cfg s ins))
            + (filteredA cfg (filt (snd (updates cfg s ins))) rawZ q
               + prevAccel (snd (updates cfg s ins))) / 2 * dt cfg"
    if "0 < zuptMaxFrames cfg"
      "zuptThreshold \<le> \<bar>filteredA cfg (filt (snd (updates cfg s ins))) rawZ q\<bar>"
    using update_resumes [OF that] .
  have thr: "zuptThreshold = 0.15"
    by (simp add: zuptThreshold_def)
  show ?thesis
    using run resume by (intro conjI impI allI thr) (elim conjE, simp)+
qed

theorem zupt_zero_lock_witness:
  "filteredAs hz20 (filt movingIntegrator) restInputs = [0, 0, 0, 0, 0]
   \<and> \<bar>0\<bar> < zuptThreshold
   \<and> fst (updates hz20 movingIntegrator restInputs) = [1, 1, 1, 0, 0]
   \<and> currentVelocity (snd (updates hz20 movingIntegrator restInputs)) = 0
   \<and> zuptCounter (snd (updates hz20 movingIntegrator restInputs)) = 5
   \<and> zuptThreshold
        \<le> \<bar>filteredA hz20 (filt (snd (updates hz20 movingIntegrator restInputs))) pushZ
             identityQuat\<bar>
   \<and> zuptCounter (snd (update hz20 (snd (updates hz20 movingIntegrator restInputs))
                           pushZ identityQuat)) = 0
   \<and> fst (update hz20 (snd (updates hz20 movingIntegrator restInputs)) pushZ identityQuat)
       = 0.025"
proof -
  have fs: "filteredAs hz20 (filt movingIntegrator) restInputs = [0, 0, 0, 0, 0]"
    by (simp add: restInputs_def movingIntegrator_def newVelocityIntegrator_def filteredAs_step
        filteredA_def getLinearAccelerationBaseZ_def identityQuat_def restZ_def rest_filter
        del: filteredAs.simps(2))
  have run: "\<forall>a \<in> set (filteredAs hz20 (filt movingIntegrator) restInputs). \<bar>a\<bar> < zuptThreshold"
    by (simp add: fs zuptThreshold_def)
  have outs: "updates hz20 movingIntegrator restInputs
                = ([1, 1, 1, 0, 0],
                   \<lparr> currentVelocity = 0, prevAccel = 0, filt = newButterworthLowPass,
                     zuptCounter = 5 \<rparr>)"
    by (simp add: restInputs_def movingIntegrator_def newVelocityIntegrator_def updates_Cons
        rest_update)
  have push: "filteredA hz20 newButterworthLowPass pushZ identityQuat = 1"
    by (simp add: eval_defs pushZ_def)
  have thr: "zuptThreshold \<le> 1"
    by (simp add: zuptThreshold_def)
  show ?thesis
    using zupt_zero_lock [OF run, of pushZ identityQuat]
    by (simp add: fs outs push thr push_first hz20_fields zuptThreshold_def)
qed

section \<open>Trapezoidal integration\<close>

text \<open>
  C2. Every call of \<open>update\<close> stores the filtered acceleration \<open>a\<close> as \<open>prevAccel\<close>. When
  the zero-run counter after the call is below \<open>zuptMaxFrames\<close>, the velocity returned is
  the velocity before the call plus \<open>(a + prevAccel) / 2 * dt\<close>, where \<open>dt\<close> is one over the
  sample rate (1/20 and 1/200 in the two copies). Hence, from velocity 0 and previous
  acceleration 0, \<open>n \<ge> 1\<close> calls whose filtered acceleration is the constant \<open>a\<close>, with the
  ZUPT never triggering, end at \<open>a * n * dt - a * dt / 2\<close>: the rectangle rule's \<open>a * n * dt\<close>
  less half a step for the first trapezoid.
\<close>

theorem trapezoidal_integration:
  "prevAccel (snd (update cfg s rawZ q)) = filteredA cfg (filt s) rawZ q
   \<and> (zuptCounter (snd (update cfg s rawZ q)) < zuptMaxFrames cfg
        \<longrightarrow> fst (update cfg s rawZ q)
              = currentVelocity s + (filteredA cfg (filt s) rawZ q + prevAccel s) / 2 * dt cfg)
   \<and> dt hz20 = 1 / 20 \<and> dt hz200 = 1 / 200
   \<and> ((\<forall>b \<in> set (filteredAs cfg (filt s) ins). b = a)
        \<and> (if \<bar>a\<bar> < zuptThreshold then zuptCounter s + length ins else 0) < zuptMaxFrames cfg
        \<and> ins \<noteq> [] \<and> currentVelocity s = 0 \<and> prevAccel s = 0
        \<longrightarrow> last (fst (updates cfg s ins)) = a * real (length ins) * dt cfg - a * dt cfg / 2)"
proof -
  have one: "zuptCounter (snd (update cfg s rawZ q)) < zuptMaxFrames cfg
        \<longrightarrow> fst (update cfg s rawZ q)
              = currentVelocity s + (filteredA cfg (filt s) rawZ q + prevAccel s) / 2 * dt cfg"
    using update_trapezoid [of cfg s rawZ q] by (simp add: update_returns_field)
  have many: "last (fst (updates cfg s ins)) = a * real (length ins) * dt cfg - a * dt cfg / 2"
    if h: "\<forall>b \<in> set (filteredAs cfg (filt s) ins). b = a"
      "(if \<bar>a\<bar> < zuptThreshold then zuptCounter s + length ins else 0) < zuptMaxFrames cfg"
      "ins \<noteq> []" and fresh: "currentVelocity s = 0" "prevAccel s = 0"
  proof -
    have n: "real (length ins) = 1 + real (length ins - 1)"
      using h(3) by (cases ins) simp_all
    have "currentVelocity (snd (updates cfg s ins))
            = a / 2 * dt cfg + real (length ins - 1) * a * dt cfg"
      using constant_run [OF h] fresh by simp
    then show ?thesis
      unfolding updates_last [OF h(3)] n by (simp add: algebra_simps)
  qed
  show ?thesis
    using one many by (simp add: update_prevAccel hz20_def hz200_def)
qed

theorem trapezoidal_integration_witness:
  "filteredAs hz20 (filt newVelocityIntegrator) pushInputs = [1, 1]
   \<and> (if \<bar>1\<bar> < zuptThreshold then zuptCounter newVelocityIntegrator + length pushInputs else 0)
        < zuptMaxFrames hz20
   \<and> zuptCounter (snd (update hz20 newVelocityIntegrator pushZ identityQuat)) < zuptMaxFrames hz20
   \<and> prevAccel (snd (update hz20 newVelocityIntegrator pushZ identityQuat)) = 1
   \<and> fst (update hz20 newVelocityIntegrator pushZ identityQuat) = (1 + 0) / 2 * 0.05
   \<and> fst (updates hz20 newVelocityIntegrator pushInputs) = [0.025, 0.075]
   \<and> last (fst (updates hz20 newVelocityIntegrator pushInputs)) = 1 * 2 * 0.05 - 1 * 0.05 / 2"
proof -
  have fs: "filteredAs hz20 (filt newVelocityIntegrator) pushInputs = [1, 1]"
    by (simp add: pushInputs_def pushZ_def pullZ_def eval_defs)
  have run: "\<forall>b \<in> set (filteredAs hz20 (filt newVelocityIntegrator) pushInputs). b = 1"
    by (simp add: fs)
  have gate: "(if \<bar>1\<bar> < zuptThreshold
               then zuptCounter newVelocityIntegrator + length pushInputs else 0)
                < zuptMaxFrames hz20"
    by (simp add: zuptThreshold_def hz20_fields)
  have outs: "fst (updates hz20 newVelocityIntegrator pushInputs) = [0.025, 0.075]"
    by (simp add: pushInputs_def newVelocityIntegrator_def updates_Cons push_first push_second)
  have fresh: "currentVelocity newVelocityIntegrator = 0" "prevAccel newVelocityIntegrator = 0"
    "pushInputs \<noteq> []"
    by (simp_all add: newVelocityIntegrator_def pushInputs_def)
  have len: "real (length pushInputs) = 2"
    by (simp add: pushInputs_def)
  have first: "update hz20 newVelocityIntegrator pushZ identityQuat
                 = (1 / 40, \<lparr> currentVelocity = 1 / 40, prevAccel = 1,
                             filt = \<lparr> xv = [0, 0, 0, 0, 1], yv = [0, 0, 0, 0, 1] \<rparr>,
                             zuptCounter = 0 \<rparr>)"
    using push_first [of 0] by (simp add: newVelocityIntegrator_def)
  show ?thesis
    using run gate fresh
      trapezoidal_integration [of hz20 newVelocityIntegrator pushZ identityQuat pushInputs 1]
    by (simp add: fs outs first len hz20_fields)
qed

section \<open>Reset\<close>

text \<open>
  C3. \<open>reset\<close> should leave the integrator indistinguishable from a new one. It restores
  the velocity, the previous acceleration and the zero-run counter and keeps the filter with
  its history, so the outputs differ: a new integrator answers 0.025 to the sample
  \<open>(pushZ, identity)\<close>, that is \<open>(9.81 + 3.4142, identity)\<close>, while an integrator that has seen this sample once and was
  then reset answers 0.125 to it.
\<close>

theorem reset_keeps_filter_history:
  "reset s = newVelocityIntegrator \<lparr> filt := filt s \<rparr>
   \<and> fst (update hz20 newVelocityIntegrator pushZ identityQuat) = 0.025
   \<and> fst (update hz20 (reset (snd (update hz20 newVelocityIntegrator pushZ identityQuat)))
             pushZ identityQuat) = 0.125"
proof -
  have first: "update hz20 newVelocityIntegrator pushZ identityQuat
                 = (1 / 40, \<lparr> currentVelocity = 1 / 40, prevAccel = 1,
                             filt = \<lparr> xv = [0, 0, 0, 0, 1], yv = [0, 0, 0, 0, 1] \<rparr>,
                             zuptCounter = 0 \<rparr>)"
    using push_first [of 0] by (simp add: newVelocityIntegrator_def)
  have r: "reset \<lparr> currentVelocity = 1 / 40, prevAccel = 1,
                    filt = \<lparr> xv = [0, 0, 0, 0, 1], yv = [0, 0, 0, 0, 1] \<rparr>,
                    zuptCounter = 0 \<rparr>
             = \<lparr> currentVelocity = 0, prevAccel = 0,
                 filt = \<lparr> xv = [0, 0, 0, 0, 1], yv = [0, 0, 0, 0, 1] \<rparr>, zuptCounter = 0 \<rparr>"
    by (simp add: reset_def)
  have fields: "reset s = newVelocityIntegrator \<lparr> filt := filt s \<rparr>"
    by (simp add: reset_def newVelocityIntegrator_def)
  show ?thesis
    using fields by (simp add: first r push_again)
qed

section \<open>Gain of the filter at constant input\<close>

text \<open>
  C4. Under the constant input 1 the filter should settle at 1. With the constants of the
  20 Hz copy the state that the constant input reproduces has output
  \<open>16 / (3.4142 * 1.1715728753)\<close>, above 4; with those of the 200 Hz copy it has output
  \<open>16 / (1445.41 * 0.0086511826)\<close>, above 1.27. By \<open>fixed_point_unique\<close> no other output is
  reproduced.
\<close>

theorem filter_dc_gain_not_unity:
  "filter_step hz20 (steady hz20 1 (16 / (3.4142 * 1.1715728753))) 1
     = (16 / (3.4142 * 1.1715728753), steady hz20 1 (16 / (3.4142 * 1.1715728753)))
   \<and> filter_step hz200 (steady hz200 1 (16 / (1445.41 * 0.0086511826))) 1
     = (16 / (1445.41 * 0.0086511826), steady hz200 1 (16 / (1445.41 * 0.0086511826)))
   \<and> (4 :: real) < 16 / (3.4142 * 1.1715728753)
   \<and> (1.27 :: real) < 16 / (1445.41 * 0.0086511826)"
proof -
  have a: "filter_step hz20 (steady hz20 1 (16 / (3.4142 * 1.1715728753))) 1
     = (16 / (3.4142 * 1.1715728753), steady hz20 1 (16 / (3.4142 * 1.1715728753)))"
    by (simp add: filter_step_def steady_def hz20_def Let_def eval_nat_numeral)
  have b: "filter_step hz200 (steady hz200 1 (16 / (1445.41 * 0.0086511826))) 1
     = (16 / (1445.41 * 0.0086511826), steady hz200 1 (16 / (1445.41 * 0.0086511826)))"
    by (simp add: filter_step_def steady_def hz200_def Let_def eval_nat_numeral)
  have c: "(4 :: real) < 16 / (3.4142 * 1.1715728753)"
    "(1.27 :: real) < 16 / (1445.41 * 0.0086511826)"
    by simp_all
  show ?thesis
    by (intro conjI a b c)
qed

section \<open>Frame decoding: results\<close>

text \<open>
  C5. An acceleration frame should be scaled by the configured range, 2 g when the caller
  asks for the 2 g fallback as the notification handler does. The decoder multiplies every
  valid frame's fields by \<open>16 * 9.81 / 32768\<close>, whatever the caller passes: the frame whose
  third field is 16384 gives
  \<open>accelerationZ = 16384 / 32768 * 16 * 9.81 = 78.48\<close> in the handler, not
  \<open>16384 / 32768 * 2 * 9.81 = 9.81\<close>.
\<close>

theorem acceleration_scale_fixed_at_16g:
  "(11 \<le> length buffer \<and> buffer ! 0 = 0x55 \<and> buffer ! 1 = 0x51
      \<longrightarrow> parseAcceleration buffer
            = Some \<lparr> x = real_of_int (getInt16 buffer 2) / 32768 * 16 * 9.81,
                       y = real_of_int (getInt16 buffer 4) / 32768 * 16 * 9.81,
                       z = real_of_int (getInt16 buffer 6) / 32768 * 16 * 9.81 \<rparr>)
   \<and> getInt16 halfFrame 6 = 16384
   \<and> accelerationZ (handleCharacteristicValueChanged cfg h (Some halfFrame))
       = (16384 / 32768) * 16 * 9.81
   \<and> accelerationZ (handleCharacteristicValueChanged cfg h (Some halfFrame))
       \<noteq> (16384 / 32768) * 2 * 9.81"
proof -
  have valid: "parseAcceleration buffer
            = Some \<lparr> x = real_of_int (getInt16 buffer 2) / 32768 * 16 * 9.81,
                       y = real_of_int (getInt16 buffer 4) / 32768 * 16 * 9.81,
                       z = real_of_int (getInt16 buffer 6) / 32768 * 16 * 9.81 \<rparr>"
    if "11 \<le> length buffer" "buffer ! 0 = 0x55" "buffer ! 1 = 0x51"
    using that by (simp add: parseAcceleration_def)
  have half: "getInt16 halfFrame 6 = 16384"
    by (simp add: frame_defs)
  have hnd: "accelerationZ (handleCharacteristicValueChanged cfg h (Some halfFrame))
               = (16384 / 32768) * 16 * 9.81"
    by (simp add: handleCharacteristicValueChanged_def frame_defs split_def Let_def)
  show ?thesis
    using valid half by (simp add: hnd)
qed

theorem acceleration_scale_fixed_at_16g_witness:
  "11 \<le> length halfFrame \<and> halfFrame ! 0 = 0x55 \<and> halfFrame ! 1 = 0x51
   \<and> parseAcceleration halfFrame = Some \<lparr> x = 0, y = 0, z = 78.48 \<rparr>
   \<and> accelerationZ (handleCharacteristicValueChanged hz20 newHook (Some halfFrame)) = 78.48
   \<and> accelerationZ (handleCharacteristicValueChanged hz20 newHook (Some halfFrame)) \<noteq> 9.81"
proof -
  have frame: "11 \<le> length halfFrame" "halfFrame ! 0 = 0x55" "halfFrame ! 1 = 0x51"
    by (simp_all add: halfFrame_def)
  have fields: "getInt16 halfFrame 2 = 0" "getInt16 halfFrame 4 = 0" "getInt16 halfFrame 6 = 16384"
    by (simp_all add: getInt16_def halfFrame_def)
  show ?thesis
    using frame acceleration_scale_fixed_at_16g [of halfFrame hz20 newHook]
    by (simp add: fields)
qed

text \<open>
  C9. A buffer shorter than 11 bytes, or whose first byte is not \<open>0x55\<close>, or whose second
  byte is not the decoder's own frame type (\<open>0x51\<close> for \<open>parseAcceleration\<close>, \<open>0x59\<close> for
  \<open>parseQuaternion\<close>) decodes to nothing. The decoders are functions of the buffer alone.
\<close>

theorem decoder_rejects:
  "(length buffer < 11 \<or> buffer ! 0 \<noteq> 0x55 \<or> buffer ! 1 \<noteq> 0x51
      \<longrightarrow> parseAcceleration buffer = None)
   \<and> (length buffer < 11 \<or> buffer ! 0 \<noteq> 0x55 \<or> buffer ! 1 \<noteq> 0x59
      \<longrightarrow> parseQuaternion buffer = None)"
  by (simp add: parseAcceleration_def parseQuaternion_def)

theorem decoder_rejects_witness:
  "length [0x55, 0x51, 0, 0 :: byte] < 11
   \<and> parseAcceleration [0x55, 0x51, 0, 0] = None \<and> parseQuaternion [0x55, 0x51, 0, 0] = None
   \<and> (0x54 # tl zeroFrame) ! 0 \<noteq> 0x55
   \<and> parseAcceleration (0x54 # tl zeroFrame) = None
   \<and> parseQuaternion (0x54 # tl quatFrame) = None
   \<and> quatFrame ! 1 \<noteq> 0x51 \<and> parseAcceleration quatFrame = None
   \<and> zeroFrame ! 1 \<noteq> 0x59 \<and> parseQuaternion zeroFrame = None"
  using decoder_rejects [of "[0x55, 0x51, 0, 0]"] decoder_rejects [of "0x54 # tl zeroFrame"]
    decoder_rejects [of "0x54 # tl quatFrame"] decoder_rejects [of quatFrame]
    decoder_rejects [of zeroFrame]
  by (simp add: zeroFrame_def quatFrame_def)

section \<open>Velocity drop: results\<close>

text \<open>
  C6, as the code has it. For a positive peak and a positive reference the drop is
  \<open>max 0 ((reference - peak) / reference * 100)\<close>, and it is 0 whenever the peak is at least
  the reference. The computation is guarded by \<open>peak > 0\<close>: for a peak of 0, or below, the
  drop is 0 and not 100.
\<close>

theorem drop_percent_guarded:
  "(0 < peak \<and> 0 < best \<longrightarrow> velocityDropPercent peak best = max 0 ((best - peak) / best * 100))
   \<and> (0 < best \<and> best \<le> peak \<longrightarrow> velocityDropPercent peak best = 0)
   \<and> (peak \<le> 0 \<longrightarrow> velocityDropPercent peak best = 0)"
proof -
  have "(best - peak) / best * 100 \<le> 0" if "0 < best" "best \<le> peak"
    using that by (simp add: divide_le_0_iff)
  then show ?thesis
    by (auto simp: velocityDropPercent_def max_def)
qed

theorem drop_percent_guarded_witness:
  "velocityDropPercent 0.8 bestSetVelocity = 20 \<and> velocityDropPercent 1.2 bestSetVelocity = 0
   \<and> velocityDropPercent 0 bestSetVelocity = 0"
  using drop_percent_guarded [of "0.8" bestSetVelocity]
    drop_percent_guarded [of "1.2" bestSetVelocity] drop_percent_guarded [of 0 bestSetVelocity]
  by (simp add: bestSetVelocity_def)

text \<open>The claim as stated fails at peak 0 against the reference of \<^verbatim>\<open>App\<close>: the drop is
  neither 100 nor the value of the formula.\<close>

theorem drop_percent_counterexample:
  "velocityDropPercent 0 bestSetVelocity \<noteq> 100
   \<and> velocityDropPercent 0 bestSetVelocity
       \<noteq> max 0 ((bestSetVelocity - 0) / bestSetVelocity * 100)"
  by (simp add: velocityDropPercent_def bestSetVelocity_def)

section \<open>Peak velocity: results\<close>

text \<open>
  C7, as the code has it. After \<open>resetPeak\<close>, the peak velocity is the running maximum of 0
  and the signed velocities computed since; a negative velocity never raises it.
\<close>

theorem peak_is_running_max_of_signed:
  "peakVelocity (handleEvents cfg (resetPeak h) es)
     = Max (insert 0 (set (velocitySamples cfg (resetPeak h) es)))"
  by (simp add: peak_fold foldl_setPeak resetPeak_def)

theorem peak_is_running_max_of_signed_witness:
  "peakVelocity (handleEvents hz20 (resetPeak newHook) [Some zeroFrame, Some halfFrame])
     = Max (insert 0 (set (velocitySamples hz20 (resetPeak newHook)
                             [Some zeroFrame, Some halfFrame])))"
  using peak_is_running_max_of_signed [of hz20 newHook "[Some zeroFrame, Some halfFrame]"] .

text \<open>The claim as stated fails on one acceleration frame of all zeros at a new hook: the
  one velocity produced is negative, its absolute value is positive, the peak stays 0.\<close>

theorem peak_abs_counterexample:
  "velocitySamples hz20 (resetPeak newHook) [Some zeroFrame] = [- (4905 / 68284)]
   \<and> peakVelocity (handleEvents hz20 (resetPeak newHook) [Some zeroFrame]) = 0
   \<and> peakVelocity (handleEvents hz20 (resetPeak newHook) [Some zeroFrame])
       \<noteq> Max ((\<lambda>v. \<bar>v\<bar>) ` set (velocitySamples hz20 (resetPeak newHook) [Some zeroFrame]))"
proof -
  have one: "handleCharacteristicValueChanged hz20 (resetPeak newHook) (Some zeroFrame)
               = \<lparr> velocity = - (4905 / 68284), peakVelocity = 0, accelerationZ = 0,
                   integratorRef = \<lparr> currentVelocity = - (4905 / 68284),
                     prevAccel = - (9.81 / 3.4142),
                     filt = \<lparr> xv = [0, 0, 0, 0, - (9.81 / 3.4142)],
                              yv = [0, 0, 0, 0, - (9.81 / 3.4142)] \<rparr>,
                     zuptCounter = 0 \<rparr>,
                   latestQuatRef = identityQuat \<rparr>"
    by (simp add: handleCharacteristicValueChanged_def resetPeak_def newHook_def frame_defs
        setPeakVelocity_def eval_defs)
  have prod: "producesVelocity (Some zeroFrame)"
    by (simp add: producesVelocity_def frame_defs)
  show ?thesis
    by (simp add: one prod)
qed

section \<open>Workout store: results\<close>

text \<open>
  C10. In a store whose \<open>activeSessionId\<close> or \<open>activeSetId\<close> is null, \<open>addRep\<close> returns the
  state it was given, unchanged in every field; so does \<open>startSet\<close> when \<open>activeSessionId\<close>
  is null.
\<close>

theorem store_untouched_without_target:
  "(activeSessionId state = None \<or> activeSetId state = None
      \<longrightarrow> addRep uuid pv mv state = state)
   \<and> (activeSessionId state = None \<longrightarrow> startSet uuid' n w t state = state)"
  by (simp add: addRep_def startSet_def falsy_def)

theorem store_untouched_without_target_witness:
  "activeSetId betweenSets = None \<and> addRep ''r1'' 0.8 None betweenSets = betweenSets
   \<and> activeSessionId (endSession betweenSets) = None
   \<and> addRep ''r1'' 0.8 None (endSession betweenSets) = endSession betweenSets
   \<and> startSet ''e2'' ''bench'' 60 8 (endSession betweenSets) = endSession betweenSets"
  using store_untouched_without_target [of betweenSets "''r1''" "0.8" None]
    store_untouched_without_target [of "endSession betweenSets" "''r1''" "0.8" None "''e2''"
      "''bench''" 60 8]
  by (simp add: betweenSets_def endSet_def endSession_def startSet_def startSession_def
      emptyStore_def falsy_def)

end
